theory Spec2Isabelle
  imports Main "HOL-Library.Word" "HOL-Library.Sublist"
begin

unbundle bit_operations_syntax

section \<open>JavaScript values used by the helpers\<close>

text \<open>
  A JavaScript string is a sequence of UTF-16 code units: \<open>s.length\<close> counts code
  units and \<open>s.startsWith(p)\<close> compares code units, so a string is a list of 16-bit
  words. \<open>lit\<close> turns an ASCII literal of the source into its code units.
\<close>

type_synonym code_unit = "16 word"
type_synonym js_string = "code_unit list"
type_synonym byte = "8 word"

definition lit :: "string \<Rightarrow> js_string" where
  "lit s = map (\<lambda>c. of_char c) s"

definition startsWith :: "js_string \<Rightarrow> js_string \<Rightarrow> bool" where
  "startsWith s p = prefix p s"

text \<open>
  A thrown value. Everything the platform and the SDKs throw here is an \<open>Error\<close>
  object with a name, a message and possibly a \<open>logs\<close> property; \<open>NonError\<close>
  stands for any other thrown value, kept as its string conversion.
\<close>

datatype thrown =
    ErrorObj (err_name: js_string) (err_message: js_string) (err_logs: "js_string list option")
  | NonError js_string

text \<open>\<open>new Error(msg)\<close>: name \<open>Error\<close>, the given message, no \<open>logs\<close>.\<close>

definition new_Error :: "js_string \<Rightarrow> thrown" where
  "new_Error msg = ErrorObj (lit ''Error'') msg None"

section \<open>src/utils/sui.ts\<close>

text \<open>
  \<open>validateSuiAddress\<close> returns nothing or throws: the result is \<open>Inr ()\<close> or
  \<open>Inl\<close> of the thrown value.
\<close>

definition validateSuiAddress :: "js_string \<Rightarrow> thrown + unit" where
  "validateSuiAddress address =
     (if \<not> startsWith address (lit ''0x'') \<or> length address \<noteq> 66
      then Inl (new_Error (address @ lit '' is not a valid Sui address.''))
      else Inr ())"

text \<open>
  The RPC client is given by what its coin-metadata lookup answers: it throws, or it
  resolves to \<open>null\<close> (\<open>None\<close>) or to a metadata object, whose shape the validator
  never inspects.
\<close>

record 'm sui_client =
  getCoinMetadata :: "js_string \<Rightarrow> thrown + 'm option"

text \<open>
  The \<open>try\<close> block is \<open>attempt\<close>: the lookup's own exception, or the \<open>Error\<close>
  thrown on a falsy result. The \<open>catch\<close> replaces whatever was thrown by a new
  \<open>Error\<close>.
\<close>

definition validateSuiCoinType :: "'m sui_client \<Rightarrow> js_string \<Rightarrow> thrown + unit" where
  "validateSuiCoinType suiClient coinType =
     (let attempt =
        (case getCoinMetadata suiClient coinType of
           Inl error \<Rightarrow> Inl error
         | Inr coinTypeObject \<Rightarrow>
             (if coinTypeObject = None
              then Inl (new_Error (coinType @ lit '' is not a valid Sui coin type.''))
              else Inr ()))
      in case attempt of
           Inl error \<Rightarrow> Inl (new_Error (coinType @ lit '' is not a valid Sui coin type.''))
         | Inr u \<Rightarrow> Inr u)"

section \<open>Platform values of the token launch helper\<close>

text \<open>
  A JavaScript number is an IEEE 754 double, kept as its 64 bits (sign, 11 exponent
  bits, 52 fraction bits). The helper never computes with numbers; it only tests
  them for truthiness: \<open>+0\<close>, \<open>-0\<close> and \<open>NaN\<close> are falsy.
\<close>

type_synonym js_number = "64 word"

definition isNaN :: "js_number \<Rightarrow> bool" where
  "isNaN x \<longleftrightarrow>
     x AND 0x7FF0000000000000 = 0x7FF0000000000000 \<and> x AND 0x000FFFFFFFFFFFFF \<noteq> 0"

definition truthy_number :: "js_number \<Rightarrow> bool" where
  "truthy_number x \<longleftrightarrow> \<not> (x = 0 \<or> x = 0x8000000000000000 \<or> isNaN x)"

text \<open>The numeric literals of the source: \<open>0\<close>, \<open>10\<close> and \<open>0.0001\<close> as doubles.\<close>

definition number_0 :: js_number where
  "number_0 = 0"

definition number_10 :: js_number where
  "number_10 = 0x4024000000000000"

definition number_0_0001 :: js_number where
  "number_0_0001 = 0x3F1A36E2EB1C432D"

text \<open>\<open>x || d\<close> on an optional number: \<open>undefined\<close> and the falsy numbers give \<open>d\<close>.\<close>

definition or_default :: "js_number option \<Rightarrow> js_number \<Rightarrow> js_number" where
  "or_default x d = (case x of None \<Rightarrow> d | Some v \<Rightarrow> if truthy_number v then v else d)"

text \<open>
  \<open>`${error}`\<close>: \<open>Error.prototype.toString\<close> joins name and message with a colon,
  and gives one of them alone when the other is empty.
\<close>

fun ToString :: "thrown \<Rightarrow> js_string" where
  "ToString (ErrorObj n m l) = (if n = [] then m else if m = [] then n else n @ lit '': '' @ m)"
| "ToString (NonError s) = s"

text \<open>\<open>`${response.status}`\<close>: a status is a non-negative integer, printed in decimal.\<close>

function Number_toString :: "nat \<Rightarrow> js_string" where
  "Number_toString n =
     (if n < 10 then [of_nat (48 + n)]
      else Number_toString (n div 10) @ [of_nat (48 + n mod 10)])"
  by pat_completeness auto
termination
  by (relation "measure id") auto

declare Number_toString.simps [simp del]

text \<open>
  \<open>URLSearchParams.append\<close> and \<open>FormData.append\<close> take their string arguments
  as \<open>USVString\<close>: every surrogate that is not part of a pair becomes U+FFFD.
\<close>

definition is_lead :: "code_unit \<Rightarrow> bool" where
  "is_lead c \<longleftrightarrow> 0xD800 \<le> c \<and> c \<le> 0xDBFF"

definition is_trail :: "code_unit \<Rightarrow> bool" where
  "is_trail c \<longleftrightarrow> 0xDC00 \<le> c \<and> c \<le> 0xDFFF"

fun USVString :: "js_string \<Rightarrow> js_string" where
  "USVString [] = []"
| "USVString [c] = (if is_lead c \<or> is_trail c then [0xFFFD] else [c])"
| "USVString (c # d # cs) =
     (if is_lead c then
        (if is_trail d then c # d # USVString cs else 0xFFFD # USVString (d # cs))
      else if is_trail c then 0xFFFD # USVString (d # cs)
      else c # USVString (d # cs))"

text \<open>
  A value parsed from JSON. \<open>json_value option\<close> is a value that may be
  \<open>undefined\<close> (\<open>None\<close>).
\<close>

datatype json_value =
    JNull
  | JBool bool
  | JNum js_number
  | JStr js_string
  | JArr "json_value list"
  | JObj "(js_string \<times> json_value) list"

text \<open>
  Member access \<open>v.k\<close>, for a key \<open>k\<close> that no built-in prototype defines (the four
  keys read below are such): on \<open>undefined\<close> and \<open>null\<close> it throws a
  \<open>TypeError\<close>, on an object it gives the property or \<open>undefined\<close>, on every other
  value \<open>undefined\<close>.
\<close>

definition cannot_read :: "js_string \<Rightarrow> js_string \<Rightarrow> thrown" where
  "cannot_read v k =
     ErrorObj (lit ''TypeError'')
       (lit ''Cannot read properties of '' @ v @ lit '' (reading '' @ [39] @ k @ [39] @ lit '')'')
       None"

fun get_member :: "json_value option \<Rightarrow> js_string \<Rightarrow> thrown + json_value option" where
  "get_member None k = Inl (cannot_read (lit ''undefined'') k)"
| "get_member (Some JNull) k = Inl (cannot_read (lit ''null'') k)"
| "get_member (Some (JObj kvs)) k = Inr (map_of kvs k)"
| "get_member (Some v) k = Inr None"

text \<open>The options bag; every field is optional.\<close>

record PumpFunTokenOptions =
  twitter :: "js_string option"
  telegram :: "js_string option"
  website :: "js_string option"
  initialBuyAmount :: "js_number option"
  slippageBps :: "js_number option"
  priorityFee :: "js_number option"

text \<open>
  A \<open>Keypair\<close> of the Solana SDK, and a \<open>File\<close>, an HTTP agent, a request and a
  response of the fetch API. A response is given by its status line and by what each
  way of reading its body resolves to; \<open>ok\<close> is true on a status from 200 to 299.
\<close>

record Keypair =
  publicKey :: "byte list"
  secretKey :: "byte list"

record File =
  file_bits :: "byte list"
  file_name :: js_string
  file_type :: js_string

datatype agent = HttpsProxyAgent js_string

datatype form_value = FormText js_string | FormFile File

datatype body = FormData "(js_string \<times> form_value) list" | Text js_string

record request =
  url :: js_string
  req_method :: js_string
  headers :: "(js_string \<times> js_string) list"
  req_body :: "body option"
  req_agent :: "agent option"

record response =
  status :: nat
  statusText :: js_string
  await_blob :: "thrown + byte list"
  await_text :: "thrown + js_string"
  await_arrayBuffer :: "thrown + byte list"
  await_json :: "thrown + json_value"

definition ok :: "response \<Rightarrow> bool" where
  "ok r \<longleftrightarrow> 200 \<le> status r \<and> status r \<le> 299"

text \<open>The request body of the transaction-construction call, before \<open>JSON.stringify\<close>.\<close>

record tokenMetadata =
  name :: "json_value option"
  symbol :: "json_value option"
  uri :: "json_value option"

record payload =
  p_publicKey :: js_string
  p_action :: js_string
  p_tokenMetadata :: tokenMetadata
  p_mint :: "byte list"
  p_denominatedInSol :: js_string
  p_amount :: js_number
  p_slippage :: js_number
  p_priorityFee :: js_number
  p_pool :: js_string

text \<open>
  \<open>btoa(String.fromCharCode(...bytes))\<close>. \<open>String.fromCharCode\<close> makes one code
  unit of each byte. \<open>btoa\<close> throws on a code unit above 255 and otherwise encodes the
  bytes in base64 (RFC 4648, with padding): three bytes give four characters of the
  alphabet \<open>A-Z a-z 0-9 + /\<close>.
\<close>

definition base64_char :: "nat \<Rightarrow> code_unit" where
  "base64_char i =
     of_nat (if i < 26 then 65 + i else if i < 52 then 71 + i else if i < 62 then i - 4
             else if i = 62 then 43 else 47)"

fun base64_encode :: "byte list \<Rightarrow> js_string" where
  "base64_encode [] = []"
| "base64_encode [a] =
     [base64_char (unat a div 4), base64_char (unat a mod 4 * 16), 61, 61]"
| "base64_encode [a, b] =
     [base64_char (unat a div 4), base64_char (unat a mod 4 * 16 + unat b div 16),
      base64_char (unat b mod 16 * 4), 61]"
| "base64_encode (a # b # c # bs) =
     [base64_char (unat a div 4), base64_char (unat a mod 4 * 16 + unat b div 16),
      base64_char (unat b mod 16 * 4 + unat c div 64), base64_char (unat c mod 64)]
     @ base64_encode bs"

definition String_fromCharCode :: "byte list \<Rightarrow> js_string" where
  "String_fromCharCode bytes = map ucast bytes"

definition btoa :: "js_string \<Rightarrow> thrown + js_string" where
  "btoa s =
     (if list_ex (\<lambda>c. 255 < c) s
      then Inl (ErrorObj (lit ''InvalidCharacterError'') (lit ''Invalid character'') None)
      else Inr (base64_encode (map ucast s)))"



section \<open>The environment: network, process and SDK\<close>

text \<open>
  What the helper calls but does not implement is a parameter:
  \<^item> \<open>network\<close> answers a \<open>fetch\<close>: given the requests made before and the request,
    the promise rejects (\<open>Inl\<close>) or resolves to a response;
  \<^item> \<open>IPFS_HTTP_PROXY\<close> is the environment variable, \<open>new_HttpsProxyAgent\<close> the
    agent's constructor, which may throw;
  \<^item> \<open>Keypair_generate\<close> is the keypair that \<open>Keypair.generate()\<close> returns;
  \<^item> \<open>JSON_stringify\<close> serialises the payload;
  \<^item> \<open>deserialize\<close>, \<open>sign\<close> and \<open>serialize\<close> are the methods of the SDK's
    \<open>VersionedTransaction\<close>, of type \<open>'tx\<close>; \<open>sign\<close> returns the transaction it signed
    in place.
  The world records what the helper did: the requests it made with \<open>fetch\<close> and the
  lines it wrote with \<open>console.error\<close>, both in order.
\<close>

record 'tx env =
  network :: "request list \<Rightarrow> request \<Rightarrow> thrown + response"
  IPFS_HTTP_PROXY :: "js_string option"
  new_HttpsProxyAgent :: "js_string \<Rightarrow> thrown + agent"
  Keypair_generate :: Keypair
  JSON_stringify :: "payload \<Rightarrow> js_string"
  deserialize :: "byte list \<Rightarrow> thrown + 'tx"
  sign :: "'tx \<Rightarrow> Keypair list \<Rightarrow> thrown + 'tx"
  serialize :: "'tx \<Rightarrow> thrown + byte list"

datatype console_arg = LogString js_string | LogThrown thrown | LogLogs "js_string list"

record world =
  requests :: "request list"
  console :: "console_arg list list"

definition fetch :: "'tx env \<Rightarrow> request \<Rightarrow> world \<Rightarrow> (thrown + response) \<times> world" where
  "fetch env req w = (network env (requests w) req, w\<lparr>requests := requests w @ [req]\<rparr>)"

section \<open>The token launch helper\<close>

text \<open>\<open>formData.append(key, value)\<close> on a \<open>URLSearchParams\<close>.\<close>

definition formData_append :: "(js_string \<times> js_string) list \<Rightarrow> js_string \<Rightarrow> js_string
    \<Rightarrow> (js_string \<times> js_string) list" where
  "formData_append formData key v = formData @ [(USVString key, USVString v)]"

text \<open>\<open>fetch(imageUrl)\<close>: a GET with no headers, no body and no agent.\<close>

definition image_request :: "js_string \<Rightarrow> request" where
  "image_request imageUrl =
     \<lparr>url = imageUrl, req_method = lit ''GET'', headers = [], req_body = None, req_agent = None\<rparr>"

text \<open>The multipart form: every text field of \<open>formData\<close> in order, then the file.\<close>

definition finalFormData :: "(js_string \<times> js_string) list \<Rightarrow> File
    \<Rightarrow> (js_string \<times> form_value) list" where
  "finalFormData formData file =
     foldl (\<lambda>acc (key, v). acc @ [(USVString key, FormText (USVString v))]) [] formData
     @ [(USVString (lit ''file''), FormFile file)]"

definition upload_request :: "(js_string \<times> form_value) list \<Rightarrow> agent option \<Rightarrow> request" where
  "upload_request form a =
     \<lparr>url = lit ''https://pump.fun/api/ipfs'', req_method = lit ''POST'', headers = [],
      req_body = Some (FormData form), req_agent = a\<rparr>"

text \<open>
  \<open>uploadMetadata\<close> in the order of the source: the text fields
  (\<open>metadata_fields\<close>), the image (\<open>fetch\<close> and \<open>blob\<close> inside one
  \<open>try\<close>), the file and the form, the proxy agent (\<open>proxy_agent\<close>, built outside
  every \<open>try\<close>), the upload (\<open>fetch\<close> inside a \<open>try\<close>), the status test, the body.
\<close>

definition metadata_fields :: "js_string \<Rightarrow> js_string \<Rightarrow> js_string \<Rightarrow> PumpFunTokenOptions option
    \<Rightarrow> (js_string \<times> js_string) list" where
  "metadata_fields tokenName tokenTicker description options =
     (let formData = [];
          formData = formData_append formData (lit ''name'') tokenName;
          formData = formData_append formData (lit ''symbol'') tokenTicker;
          formData = formData_append formData (lit ''description'') description;
          formData = formData_append formData (lit ''showName'') (lit ''true'');
          formData = (case Option.bind options twitter of
                        Some v \<Rightarrow>
                          if v \<noteq> [] then formData_append formData (lit ''twitter'') v
                          else formData
                      | None \<Rightarrow> formData);
          formData = (case Option.bind options telegram of
                        Some v \<Rightarrow>
                          if v \<noteq> [] then formData_append formData (lit ''telegram'') v
                          else formData
                      | None \<Rightarrow> formData);
          formData = (case Option.bind options website of
                        Some v \<Rightarrow>
                          if v \<noteq> [] then formData_append formData (lit ''website'') v
                          else formData
                      | None \<Rightarrow> formData)
      in formData)"

definition image_file :: "byte list \<Rightarrow> File" where
  "image_file imageBlob =
     \<lparr>file_bits = imageBlob, file_name = lit ''token_image.png'', file_type = lit ''image/png''\<rparr>"

definition proxy_agent :: "'tx env \<Rightarrow> thrown + agent option" where
  "proxy_agent env =
     (case IPFS_HTTP_PROXY env of
        Some proxy \<Rightarrow>
          if proxy \<noteq> [] then map_sum id Some (new_HttpsProxyAgent env proxy) else Inr None
      | None \<Rightarrow> Inr None)"

definition uploadMetadata :: "'tx env \<Rightarrow> js_string \<Rightarrow> js_string \<Rightarrow> js_string \<Rightarrow> js_string
    \<Rightarrow> PumpFunTokenOptions option \<Rightarrow> world \<Rightarrow> (thrown + json_value) \<times> world" where
  "uploadMetadata env tokenName tokenTicker description imageUrl options w =
     (let formData = metadata_fields tokenName tokenTicker description options
      in case fetch env (image_request imageUrl) w of
           (Inl error, w1) \<Rightarrow>
             (Inl (new_Error (lit ''Failed to fetch image: '' @ ToString error)), w1)
         | (Inr imageResponse, w1) \<Rightarrow>
     (case await_blob imageResponse of
           Inl error \<Rightarrow>
             (Inl (new_Error (lit ''Failed to fetch image: '' @ ToString error)), w1)
         | Inr imageBlob \<Rightarrow>
     (case proxy_agent env of
           Inl error \<Rightarrow> (Inl error, w1)
         | Inr a \<Rightarrow>
     (case fetch env (upload_request (finalFormData formData (image_file imageBlob)) a) w1 of
           (Inl error, w2) \<Rightarrow>
             (Inl (new_Error (lit ''Failed to upload metadata: '' @ ToString error)), w2)
         | (Inr metadataResponse, w2) \<Rightarrow>
             if \<not> ok metadataResponse
             then (Inl (new_Error (lit ''Metadata upload failed: ''
                                     @ statusText metadataResponse)), w2)
             else (await_json metadataResponse, w2)))))"

text \<open>
  The object literal of \<open>createTokenTransaction\<close>, evaluated field by field: reading
  \<open>metadataResponse.metadata.name\<close> throws when \<open>metadata\<close> is missing or \<open>null\<close>.
\<close>

definition build_payload :: "js_string \<Rightarrow> Keypair \<Rightarrow> json_value \<Rightarrow> PumpFunTokenOptions option
    \<Rightarrow> thrown + payload" where
  "build_payload userPublicKey mintKeypair metadataResponse options =
     (case get_member (Some metadataResponse) (lit ''metadata'') of
        Inl error \<Rightarrow> Inl error
      | Inr metadata1 \<Rightarrow>
     (case get_member metadata1 (lit ''name'') of
        Inl error \<Rightarrow> Inl error
      | Inr name1 \<Rightarrow>
     (case get_member (Some metadataResponse) (lit ''metadata'') of
        Inl error \<Rightarrow> Inl error
      | Inr metadata2 \<Rightarrow>
     (case get_member metadata2 (lit ''symbol'') of
        Inl error \<Rightarrow> Inl error
      | Inr symbol1 \<Rightarrow>
     (case get_member (Some metadataResponse) (lit ''metadataUri'') of
        Inl error \<Rightarrow> Inl error
      | Inr uri1 \<Rightarrow>
          Inr \<lparr>p_publicKey = userPublicKey,
               p_action = lit ''create'',
               p_tokenMetadata = \<lparr>name = name1, symbol = symbol1, uri = uri1\<rparr>,
               p_mint = publicKey mintKeypair,
               p_denominatedInSol = lit ''true'',
               p_amount = or_default (Option.bind options initialBuyAmount) number_0,
               p_slippage = or_default (Option.bind options slippageBps) number_10,
               p_priorityFee = or_default (Option.bind options priorityFee) number_0_0001,
               p_pool = lit ''pump''\<rparr>)))))"

definition trade_request :: "js_string \<Rightarrow> request" where
  "trade_request json =
     \<lparr>url = lit ''https://pumpportal.fun/api/trade-local'', req_method = lit ''POST'',
      headers = [(lit ''Content-Type'', lit ''application/json'')],
      req_body = Some (Text json), req_agent = None\<rparr>"

definition createTokenTransaction :: "'tx env \<Rightarrow> js_string \<Rightarrow> Keypair \<Rightarrow> json_value
    \<Rightarrow> PumpFunTokenOptions option \<Rightarrow> world \<Rightarrow> (thrown + response) \<times> world" where
  "createTokenTransaction env userPublicKey mintKeypair metadataResponse options w =
     (case build_payload userPublicKey mintKeypair metadataResponse options of
        Inl error \<Rightarrow> (Inl error, w)
      | Inr payload \<Rightarrow>
          (case fetch env (trade_request (JSON_stringify env payload)) w of
             (Inl error, w1) \<Rightarrow> (Inl error, w1)
           | (Inr response, w1) \<Rightarrow>
               if \<not> ok response
               then (case await_text response of
                       Inl error \<Rightarrow> (Inl error, w1)
                     | Inr errorText \<Rightarrow>
                         (Inl (new_Error (lit ''Transaction creation failed: ''
                                 @ Number_toString (status response) @ lit '' - '' @ errorText)),
                          w1))
               else (Inr response, w1)))"

text \<open>The \<open>try\<close> block of \<open>launchPumpFunToken\<close>, then the function with its \<open>catch\<close>.\<close>

definition launch_try :: "'tx env \<Rightarrow> js_string \<Rightarrow> js_string \<Rightarrow> js_string \<Rightarrow> js_string
    \<Rightarrow> js_string \<Rightarrow> PumpFunTokenOptions option \<Rightarrow> world \<Rightarrow> (thrown + js_string) \<times> world" where
  "launch_try env userPublicKey tokenName tokenTicker description imageUrl options w =
     (let mintKeypair = Keypair_generate env
      in case uploadMetadata env tokenName tokenTicker description imageUrl options w of
           (Inl error, w1) \<Rightarrow> (Inl error, w1)
         | (Inr metadataResponse, w1) \<Rightarrow>
     (case createTokenTransaction env userPublicKey mintKeypair metadataResponse options w1 of
           (Inl error, w2) \<Rightarrow> (Inl error, w2)
         | (Inr response, w2) \<Rightarrow>
     (case await_arrayBuffer response of
           Inl error \<Rightarrow> (Inl error, w2)
         | Inr transactionData \<Rightarrow>
     (case deserialize env transactionData of
           Inl error \<Rightarrow> (Inl error, w2)
         | Inr tx \<Rightarrow>
     (case sign env tx [mintKeypair] of
           Inl error \<Rightarrow> (Inl error, w2)
         | Inr signedTx \<Rightarrow>
     (case serialize env signedTx of
           Inl error \<Rightarrow> (Inl error, w2)
         | Inr uint8Array \<Rightarrow> (btoa (String_fromCharCode uint8Array), w2)))))))"

definition launchPumpFunToken :: "'tx env \<Rightarrow> js_string \<Rightarrow> js_string \<Rightarrow> js_string \<Rightarrow> js_string
    \<Rightarrow> js_string \<Rightarrow> PumpFunTokenOptions option \<Rightarrow> world \<Rightarrow> (thrown + js_string) \<times> world" where
  "launchPumpFunToken env userPublicKey tokenName tokenTicker description imageUrl options w =
     (case launch_try env userPublicKey tokenName tokenTicker description imageUrl options w of
        (Inr signedTransaction, w1) \<Rightarrow> (Inr signedTransaction, w1)
      | (Inl error, w1) \<Rightarrow>
          (let w2 = w1\<lparr>console := console w1
                      @ [[LogString (lit ''Error in launchpumpfuntoken:''), LogThrown error]]\<rparr>;
               w3 = (case error of
                       ErrorObj n m (Some logs) \<Rightarrow>
                         w2\<lparr>console := console w2
                              @ [[LogString (lit ''Transaction logs:''), LogLogs logs]]\<rparr>
                     | _ \<Rightarrow> w2)
           in (Inl error, w3)))"

section \<open>The SDK's versioned transaction, as the spec describes it\<close>





text \<open>Hexadecimal digits, to speak about what the address validator does not check.\<close>

definition is_hex_digit :: "code_unit \<Rightarrow> bool" where
  "is_hex_digit c \<longleftrightarrow>
     (48 \<le> unat c \<and> unat c \<le> 57) \<or> (65 \<le> unat c \<and> unat c \<le> 70) \<or> (97 \<le> unat c \<and> unat c \<le> 102)"

section \<open>Sample inputs\<close>

definition sample_address :: js_string where
  "sample_address = lit ''0x'' @ replicate 64 (of_char CHR ''a'')"

definition not_hex_rest :: js_string where
  "not_hex_rest = replicate 64 (of_char CHR ''z'')"

definition lookup_throws :: "unit sui_client" where
  "lookup_throws =
     \<lparr>getCoinMetadata = (\<lambda>_. Inl (ErrorObj (lit ''TypeError'') (lit ''fetch failed'') None))\<rparr>"

definition lookup_null :: "unit sui_client" where
  "lookup_null = \<lparr>getCoinMetadata = (\<lambda>_. Inr None)\<rparr>"

definition lookup_populated :: "unit sui_client" where
  "lookup_populated = \<lparr>getCoinMetadata = (\<lambda>_. Inr (Some ()))\<rparr>"

text \<open>
  A small SDK and network for the token launch helper: a transaction is its message
  bytes and its list of signatures; signing appends one signature for each signer.
\<close>

type_synonym toy_tx = "byte list \<times> byte list list"

definition toy_deserialize :: "byte list \<Rightarrow> thrown + toy_tx" where
  "toy_deserialize bytes =
     (if bytes = [] then Inl (new_Error (lit ''Reached end of buffer'')) else Inr (bytes, []))"

definition toy_sign :: "toy_tx \<Rightarrow> Keypair list \<Rightarrow> thrown + toy_tx" where
  "toy_sign tx signers =
     (if fst tx = [0] then Inl (new_Error (lit ''Cannot sign with non signer key''))
      else Inr (fst tx, snd tx @ map (\<lambda>k. secretKey k @ fst tx) signers))"

definition toy_serialize :: "toy_tx \<Rightarrow> thrown + byte list" where
  "toy_serialize tx =
     (if 4 < length (fst tx) then Inl (new_Error (lit ''Transaction too large''))
      else Inr (concat (snd tx) @ fst tx))"

definition toy_stringify :: "payload \<Rightarrow> js_string" where
  "toy_stringify p =
     lit ''{publicKey:'' @ p_publicKey p @ lit '',mint:'' @ map ucast (p_mint p) @ lit ''}''"

definition sample_keypair :: Keypair where
  "sample_keypair = \<lparr>publicKey = [7, 7, 7], secretKey = [9, 9]\<rparr>"

definition sample_metadata :: json_value where
  "sample_metadata =
     JObj [(lit ''metadata'', JObj [(lit ''name'', JStr (lit ''T'')),
                                   (lit ''symbol'', JStr (lit ''TICK''))]),
           (lit ''metadataUri'', JStr (lit ''ipfs://x''))]"

definition fetch_failed :: thrown where
  "fetch_failed = ErrorObj (lit ''TypeError'') (lit ''fetch failed'') None"

definition mock_response :: "nat \<Rightarrow> js_string \<Rightarrow> byte list \<Rightarrow> response" where
  "mock_response st txt bytes =
     \<lparr>status = st, statusText = txt, await_blob = Inr bytes, await_text = Inr (map ucast bytes),
      await_arrayBuffer = Inr bytes, await_json = Inr sample_metadata\<rparr>"

definition mock_env :: "(thrown + response) \<Rightarrow> (thrown + response) \<Rightarrow> (thrown + response)
    \<Rightarrow> toy_tx env" where
  "mock_env imageResult uploadResult tradeResult =
     \<lparr>network = (\<lambda>history req.
        if url req = lit ''https://pump.fun/api/ipfs'' then uploadResult
        else if url req = lit ''https://pumpportal.fun/api/trade-local'' then tradeResult
        else imageResult),
      IPFS_HTTP_PROXY = None,
      new_HttpsProxyAgent = (\<lambda>proxy. Inr (HttpsProxyAgent proxy)),
      Keypair_generate = sample_keypair,
      JSON_stringify = toy_stringify,
      deserialize = toy_deserialize,
      sign = toy_sign,
      serialize = toy_serialize\<rparr>"

definition image_url :: js_string where
  "image_url = lit ''https://example.com/t.png''"

definition start :: world where
  "start = \<lparr>requests = [], console = []\<rparr>"

definition zero_slippage :: PumpFunTokenOptions where
  "zero_slippage =
     \<lparr>twitter = None, telegram = None, website = None, initialBuyAmount = None,
      slippageBps = Some 0, priorityFee = None\<rparr>"

definition image_ok :: "thrown + response" where
  "image_ok = Inr (mock_response 200 (lit ''OK'') [137, 80, 78, 71])"


definition image_unreadable :: "thrown + response" where
  "image_unreadable = Inr ((mock_response 200 (lit ''OK'') [])\<lparr>await_blob := Inl fetch_failed\<rparr>)"

definition upload_ok :: "thrown + response" where
  "upload_ok = Inr (mock_response 200 (lit ''OK'') [])"

definition upload_500 :: "thrown + response" where
  "upload_500 = Inr (mock_response 500 (lit ''Internal Server Error'') [])"

definition trade_ok :: "thrown + response" where
  "trade_ok = Inr (mock_response 200 (lit ''OK'') [1, 2, 3])"

definition trade_400 :: "thrown + response" where
  "trade_400 = Inr (mock_response 400 (lit ''Bad Request'') [66, 97, 100])"

definition trade_empty :: "thrown + response" where
  "trade_empty = Inr (mock_response 200 (lit ''OK'') [])"

definition trade_unreadable :: "thrown + response" where
  "trade_unreadable =
     Inr ((mock_response 200 (lit ''OK'') [])\<lparr>await_arrayBuffer := Inl fetch_failed\<rparr>)"

definition trade_unsignable :: "thrown + response" where
  "trade_unsignable = Inr (mock_response 200 (lit ''OK'') [0])"

definition trade_too_large :: "thrown + response" where
  "trade_too_large = Inr (mock_response 200 (lit ''OK'') [1, 2, 3, 4, 5])"

definition sample_payload :: payload where
  "sample_payload =
     \<lparr>p_publicKey = lit ''user'', p_action = lit ''create'',
      p_tokenMetadata = \<lparr>name = Some (JStr (lit ''T'')), symbol = Some (JStr (lit ''TICK'')),
                         uri = Some (JStr (lit ''ipfs://x''))\<rparr>,
      p_mint = [7, 7, 7], p_denominatedInSol = lit ''true'',
      p_amount = number_0, p_slippage = number_10, p_priorityFee = number_0_0001,
      p_pool = lit ''pump''\<rparr>"

definition sample_form :: "byte list \<Rightarrow> (js_string \<times> form_value) list" where
  "sample_form bytes =
     finalFormData (metadata_fields (lit ''T'') (lit ''TICK'') (lit ''d'') None) (image_file bytes)"

definition uploaded :: "byte list \<Rightarrow> world" where
  "uploaded bytes =
     start\<lparr>requests := [image_request image_url, upload_request (sample_form bytes) None]\<rparr>"

definition traded :: "byte list \<Rightarrow> world" where
  "traded bytes =
     start\<lparr>requests := [image_request image_url, upload_request (sample_form bytes) None,
                           trade_request (toy_stringify sample_payload)]\<rparr>"





section \<open>Literals\<close>

lemma unat_of_char16: "unat (of_char c :: 16 word) = of_char c"
proof -
  have lt: "(of_char c :: nat) < 65536"
    using nat_of_char_less_256 [of c] by linarith
  have "(of_char c :: 16 word) = of_nat (of_char c)"
    by (simp only: of_nat_of_char)
  then have "unat (of_char c :: 16 word) = unat (of_nat (of_char c) :: 16 word)"
    by (rule arg_cong)
  also have "\<dots> = of_char c"
    using lt by (simp only: unat_of_nat) simp
  finally show ?thesis .
qed

lemma of_char16_eq_iff: "(of_char a :: 16 word) = of_char b \<longleftrightarrow> a = b"
proof
  assume "(of_char a :: 16 word) = of_char b"
  then have "unat (of_char a :: 16 word) = unat (of_char b :: 16 word)" by (rule arg_cong)
  then have "(of_char a :: nat) = of_char b" by (simp only: unat_of_char16)
  then show "a = b" by simp
qed simp

lemma lit_eq_iff: "lit a = lit b \<longleftrightarrow> a = b"
  unfolding lit_def by (rule inj_map_eq_map) (simp add: inj_def of_char16_eq_iff)

section \<open>The validators\<close>

text \<open>
  C3. The address validator returns normally exactly when the string starts with
  \<open>0x\<close> and has 66 code units; for every other string it throws an \<open>Error\<close> whose
  message contains the string itself.
\<close>

theorem validateSuiAddress_accepts_iff:
  "(validateSuiAddress s = Inr () \<longleftrightarrow> startsWith s (lit ''0x'') \<and> length s = 66) \<and>
   (\<not> (startsWith s (lit ''0x'') \<and> length s = 66) \<longrightarrow>
      (\<exists>msg. validateSuiAddress s = Inl (new_Error msg) \<and> sublist s msg))"
  by (auto simp: validateSuiAddress_def)

theorem validateSuiAddress_accepts_iff_witness:
  "validateSuiAddress sample_address = Inr () \<and>
   (\<exists>msg. validateSuiAddress (lit ''0x12'') = Inl (new_Error msg) \<and> sublist (lit ''0x12'') msg) \<and>
   (\<exists>msg. validateSuiAddress (lit ''1x'' @ replicate 64 48) = Inl (new_Error msg)
      \<and> sublist (lit ''1x'' @ replicate 64 48) msg)"
  using validateSuiAddress_accepts_iff [of sample_address]
    validateSuiAddress_accepts_iff [of "lit ''0x12''"]
    validateSuiAddress_accepts_iff [of "lit ''1x'' @ replicate 64 48"]
  by (simp add: sample_address_def startsWith_def lit_def)

text \<open>
  C9. Every string made of \<open>0x\<close> and 64 further code units is accepted, whatever
  those code units are: nothing but the prefix and the length is looked at.
\<close>

theorem validateSuiAddress_any_rest:
  "length rest = 64 \<Longrightarrow> validateSuiAddress (lit ''0x'' @ rest) = Inr ()"
  by (simp add: validateSuiAddress_def startsWith_def lit_def)

theorem validateSuiAddress_any_rest_witness:
  "length not_hex_rest = 64 \<and> \<not> list_ex is_hex_digit not_hex_rest \<and>
   validateSuiAddress (lit ''0x'' @ not_hex_rest) = Inr ()"
  using validateSuiAddress_any_rest [of not_hex_rest]
  by (simp add: not_hex_rest_def is_hex_digit_def list_ex_iff)

text \<open>
  C4. The coin-type validator throws exactly when the lookup throws or resolves to
  \<open>null\<close>; whatever the cause, the thrown value is an \<open>Error\<close> with the message
  \<open>coinType is not a valid Sui coin type.\<close>; when the lookup resolves to an object
  the validator returns normally.
\<close>

theorem validateSuiCoinType_throws_iff:
  "((\<exists>e. validateSuiCoinType c t = Inl e) \<longleftrightarrow>
      (\<exists>cause. getCoinMetadata c t = Inl cause) \<or> getCoinMetadata c t = Inr None) \<and>
   (\<forall>e. validateSuiCoinType c t = Inl e \<longrightarrow>
      e = new_Error (t @ lit '' is not a valid Sui coin type.'')) \<and>
   (\<forall>obj. getCoinMetadata c t = Inr (Some obj) \<longrightarrow> validateSuiCoinType c t = Inr ())"
  by (auto simp: validateSuiCoinType_def split: sum.splits)

theorem validateSuiCoinType_throws_iff_witness:
  "validateSuiCoinType lookup_throws (lit ''0x2::sui::SUI'')
     = Inl (new_Error (lit ''0x2::sui::SUI is not a valid Sui coin type.'')) \<and>
   validateSuiCoinType lookup_null (lit ''0x2::sui::SUI'')
     = Inl (new_Error (lit ''0x2::sui::SUI is not a valid Sui coin type.'')) \<and>
   validateSuiCoinType lookup_populated (lit ''0x2::sui::SUI'') = Inr ()"
proof -
  let ?t = "lit ''0x2::sui::SUI''"
  have thr: "\<exists>e. validateSuiCoinType lookup_throws ?t = Inl e"
    using validateSuiCoinType_throws_iff [of lookup_throws ?t]
    by (simp add: lookup_throws_def)
  have nul: "\<exists>e. validateSuiCoinType lookup_null ?t = Inl e"
    using validateSuiCoinType_throws_iff [of lookup_null ?t]
    by (simp add: lookup_null_def)
  have pop: "validateSuiCoinType lookup_populated ?t = Inr ()"
    using validateSuiCoinType_throws_iff [of lookup_populated ?t]
    by (simp add: lookup_populated_def)
  from thr nul pop show ?thesis
    using validateSuiCoinType_throws_iff [of lookup_throws ?t]
      validateSuiCoinType_throws_iff [of lookup_null ?t]
    by (auto simp: lit_def)
qed

section \<open>Base64 encoding and decoding are inverse\<close>





lemma byte_lt: "unat (a :: 8 word) < 256"
  using unsigned_less [of a] by simp









lemma ucast_byte_small: "\<not> 255 < (ucast (b :: 8 word) :: 16 word)"
proof -
  have "unat b < 2 ^ 16" using byte_lt [of b] by simp
  then have "take_bit 16 (unat b) = unat b" by (rule take_bit_nat_eq_self)
  then have "unat (ucast b :: 16 word) = unat b"
    by (simp add: unsigned_ucast_eq)
  then have "unat (ucast b :: 16 word) < 256" using byte_lt [of b] by simp
  then show ?thesis by (simp add: word_less_nat_alt)
qed

lemma ucast_byte_back: "ucast (ucast (b :: 8 word) :: 16 word) = b"
  by (simp add: ucast_up_ucast_id is_up)

lemma fromCharCode_latin1: "list_ex (\<lambda>c. 255 < c) (String_fromCharCode bytes) = False"
  by (simp add: String_fromCharCode_def list_ex_iff ucast_byte_small)

lemma fromCharCode_bytes: "map ucast (String_fromCharCode bytes) = bytes"
  by (simp add: String_fromCharCode_def ucast_byte_back comp_def)

lemma btoa_fromCharCode: "btoa (String_fromCharCode bytes) = Inr (base64_encode bytes)"
  by (simp add: btoa_def fromCharCode_latin1 fromCharCode_bytes)

section \<open>What each function returns\<close>

text \<open>
  The outcome of \<open>uploadMetadata\<close> along each path, of \<open>createTokenTransaction\<close>
  once the payload is built, and of the \<open>try\<close> block of \<open>launchPumpFunToken\<close> when it
  returns a string.
\<close>

lemma uploadMetadata_image_throws:
  assumes "network env (requests w) (image_request imageUrl) = Inl e"
  shows "uploadMetadata env tn tt d imageUrl opts w =
           (Inl (new_Error (lit ''Failed to fetch image: '' @ ToString e)),
            w\<lparr>requests := requests w @ [image_request imageUrl]\<rparr>)"
  using assms by (simp add: uploadMetadata_def fetch_def)

lemma uploadMetadata_blob_throws:
  assumes "network env (requests w) (image_request imageUrl) = Inr ir"
      and "await_blob ir = Inl e"
  shows "uploadMetadata env tn tt d imageUrl opts w =
           (Inl (new_Error (lit ''Failed to fetch image: '' @ ToString e)),
            w\<lparr>requests := requests w @ [image_request imageUrl]\<rparr>)"
  using assms by (simp add: uploadMetadata_def fetch_def)

lemma uploadMetadata_posted:
  assumes "network env (requests w) (image_request imageUrl) = Inr ir"
      and "await_blob ir = Inr b"
      and "proxy_agent env = Inr a"
  shows "uploadMetadata env tn tt d imageUrl opts w =
           (let post = upload_request (finalFormData (metadata_fields tn tt d opts) (image_file b)) a
            in (case network env (requests w @ [image_request imageUrl]) post of
                  Inl e \<Rightarrow> Inl (new_Error (lit ''Failed to upload metadata: '' @ ToString e))
                | Inr r \<Rightarrow>
                    if 200 \<le> status r \<and> status r \<le> 299 then await_json r
                    else Inl (new_Error (lit ''Metadata upload failed: '' @ statusText r)),
                w\<lparr>requests := requests w @ [image_request imageUrl, post]\<rparr>))"
  using assms by (simp add: uploadMetadata_def fetch_def ok_def Let_def split: sum.splits)

lemma createTokenTransaction_sent:
  assumes "build_payload pk kp m opts = Inr p"
  shows "createTokenTransaction env pk kp m opts w =
           (let req = trade_request (JSON_stringify env p)
            in (case network env (requests w) req of
                  Inl e \<Rightarrow> Inl e
                | Inr r \<Rightarrow>
                    if 200 \<le> status r \<and> status r \<le> 299 then Inr r
                    else (case await_text r of
                            Inl e \<Rightarrow> Inl e
                          | Inr t \<Rightarrow> Inl (new_Error (lit ''Transaction creation failed: ''
                                      @ Number_toString (status r) @ lit '' - '' @ t))),
                w\<lparr>requests := requests w @ [req]\<rparr>))"
  using assms
  by (simp add: createTokenTransaction_def fetch_def ok_def Let_def split: sum.splits)




lemma launch_try_Inr:
  assumes "launch_try env pk tn tt d img opts w = (Inr s, w')"
  shows "\<exists>m w1 r data tx signedTx bytes.
           uploadMetadata env tn tt d img opts w = (Inr m, w1) \<and>
           createTokenTransaction env pk (Keypair_generate env) m opts w1 = (Inr r, w') \<and>
           await_arrayBuffer r = Inr data \<and>
           deserialize env data = Inr tx \<and>
           sign env tx [Keypair_generate env] = Inr signedTx \<and>
           serialize env signedTx = Inr bytes \<and>
           s = base64_encode bytes"
  using assms
  by (auto simp: launch_try_def Let_def btoa_fromCharCode split: prod.splits sum.splits)

lemma launch_fst: 
  "fst (launchPumpFunToken env pk tn tt d img opts w) = fst (launch_try env pk tn tt d img opts w)"
  by (simp add: launchPumpFunToken_def Let_def split: prod.splits sum.splits)


lemma launch_world:
  "snd (launchPumpFunToken env pk tn tt d img opts w)
     = (snd (launch_try env pk tn tt d img opts w))
         \<lparr>console := console (snd (launchPumpFunToken env pk tn tt d img opts w))\<rparr>"
  by (simp add: launchPumpFunToken_def Let_def
      split: prod.splits sum.splits thrown.splits option.splits)

lemma launch_logged:
  assumes "fst (launch_try env pk tn tt d img opts w) = Inl e"
  shows "\<exists>extra. console (snd (launchPumpFunToken env pk tn tt d img opts w))
           = console (snd (launch_try env pk tn tt d img opts w))
             @ [LogString (lit ''Error in launchpumpfuntoken:''), LogThrown e] # extra"
  using assms
  by (auto simp: launchPumpFunToken_def Let_def
      split: prod.splits sum.splits thrown.splits option.splits)

lemma or_default_cases:
  "or_default x d =
     (case x of Some v \<Rightarrow> if v = 0 \<or> v = 0x8000000000000000 \<or> isNaN v then d else v
      | None \<Rightarrow> d)"
  by (simp add: or_default_def truthy_number_def split: option.splits)




section \<open>The sample environment\<close>

lemma network_mock_image:
  "network (mock_env i u t) h (image_request image_url) = i"
  by (simp add: mock_env_def image_request_def image_url_def lit_eq_iff)

lemma network_mock_upload:
  "network (mock_env i u t) h (upload_request form a) = u"
  by (simp add: mock_env_def upload_request_def)

lemma network_mock_trade:
  "network (mock_env i u t) h (trade_request j) = t"
  by (simp add: mock_env_def trade_request_def lit_eq_iff)

lemma proxy_agent_mock: "proxy_agent (mock_env i u t) = Inr None"
  by (simp add: proxy_agent_def mock_env_def)

lemma mock_response_simps:
  "status (mock_response st txt bytes) = st"
  "statusText (mock_response st txt bytes) = txt"
  "await_blob (mock_response st txt bytes) = Inr bytes"
  "await_text (mock_response st txt bytes) = Inr (map ucast bytes)"
  "await_arrayBuffer (mock_response st txt bytes) = Inr bytes"
  "await_json (mock_response st txt bytes) = Inr sample_metadata"
  by (simp_all add: mock_response_def)

lemma mock_env_simps:
  "Keypair_generate (mock_env i u t) = sample_keypair"
  "JSON_stringify (mock_env i u t) = toy_stringify"
  "deserialize (mock_env i u t) = toy_deserialize"
  "sign (mock_env i u t) = toy_sign"
  "serialize (mock_env i u t) = toy_serialize"
  by (simp_all add: mock_env_def)

lemma sample_keypair_simps:
  "publicKey sample_keypair = [7, 7, 7]"
  "secretKey sample_keypair = [9, 9]"
  by (simp_all add: sample_keypair_def)

lemma sample_payload_built:
  "build_payload (lit ''user'') sample_keypair sample_metadata None = Inr sample_payload"
  by (simp add: build_payload_def sample_metadata_def sample_payload_def sample_keypair_def
      or_default_def lit_eq_iff)

lemma mock_uploaded:
  "uploadMetadata (mock_env (Inr (mock_response st txt bytes)) upload_ok t)
     (lit ''T'') (lit ''TICK'') (lit ''d'') image_url None start
   = (Inr sample_metadata, uploaded bytes)"
proof -
  let ?env = "mock_env (Inr (mock_response st txt bytes)) upload_ok t"
  have img: "network ?env (requests start) (image_request image_url)
      = Inr (mock_response st txt bytes)"
    by (rule network_mock_image)
  have blob: "await_blob (mock_response st txt bytes) = Inr bytes"
    by (simp add: mock_response_def)
  show ?thesis
    unfolding uploadMetadata_posted [OF img blob proxy_agent_mock] Let_def network_mock_upload
    by (simp add: upload_ok_def mock_response_def uploaded_def sample_form_def start_def)
qed

lemma mock_uploaded_image_ok:
  "uploadMetadata (mock_env image_ok upload_ok t) (lit ''T'') (lit ''TICK'') (lit ''d'')
     image_url None start = (Inr sample_metadata, uploaded [137, 80, 78, 71])"
  unfolding image_ok_def by (rule mock_uploaded)

lemma Number_toString_400: "Number_toString 400 = lit ''400''"
  by (simp add: Number_toString.simps lit_def)

lemma mock_traded:
  "createTokenTransaction (mock_env i u t) (lit ''user'') sample_keypair sample_metadata None w
     = (case t of
          Inl e \<Rightarrow> Inl e
        | Inr r \<Rightarrow>
            if 200 \<le> status r \<and> status r \<le> 299 then Inr r
            else (case await_text r of
                    Inl e \<Rightarrow> Inl e
                  | Inr txt \<Rightarrow> Inl (new_Error (lit ''Transaction creation failed: ''
                              @ Number_toString (status r) @ lit '' - '' @ txt))),
        w\<lparr>requests := requests w @ [trade_request (toy_stringify sample_payload)]\<rparr>)"
  unfolding createTokenTransaction_sent [OF sample_payload_built] Let_def network_mock_trade
    mock_env_simps
  by simp

lemma mock_traded_uploaded:
  "createTokenTransaction (mock_env i u (Inr (mock_response 200 txt bytes))) (lit ''user'')
     sample_keypair sample_metadata None (uploaded png)
   = (Inr (mock_response 200 txt bytes), traded png)"
  unfolding mock_traded by (simp add: mock_response_simps uploaded_def traded_def start_def)

lemma mock_traded_200:
  "status r = 200 \<Longrightarrow>
   createTokenTransaction (mock_env i u (Inr r)) (lit ''user'') sample_keypair sample_metadata
     None (uploaded png) = (Inr r, traded png)"
  unfolding mock_traded by (simp add: uploaded_def traded_def start_def)

lemma mock_traded_400:
  "createTokenTransaction (mock_env i u trade_400) (lit ''user'') sample_keypair sample_metadata
     None (uploaded png)
   = (Inl (new_Error (lit ''Transaction creation failed: 400 - Bad'')), traded png)"
  unfolding mock_traded trade_400_def
  by (simp add: mock_response_simps Number_toString_400 uploaded_def traded_def start_def lit_def)

lemma failed_to_fetch_text:
  "lit ''Failed to fetch image: '' @ ToString fetch_failed
     = lit ''Failed to fetch image: TypeError: fetch failed''"
  by (simp add: fetch_failed_def lit_def)

lemma signed_sample: "base64_encode [9, 9, 1, 2, 3, 1, 2, 3] = lit ''CQkBAgMBAgM=''"
  by (simp add: base64_char_def lit_def)

lemma launch_mock_ok:
  "launchPumpFunToken (mock_env image_ok upload_ok trade_ok) (lit ''user'') (lit ''T'')
     (lit ''TICK'') (lit ''d'') image_url None start
   = (Inr (lit ''CQkBAgMBAgM=''), traded [137, 80, 78, 71])"
proof -
  have tried: "launch_try (mock_env image_ok upload_ok trade_ok) (lit ''user'') (lit ''T'')
     (lit ''TICK'') (lit ''d'') image_url None start
   = (Inr (base64_encode [9, 9, 1, 2, 3, 1, 2, 3]), traded [137, 80, 78, 71])"
    unfolding launch_try_def Let_def mock_env_simps mock_uploaded_image_ok trade_ok_def
      btoa_fromCharCode
    by (simp add: mock_traded_uploaded mock_response_simps toy_deserialize_def toy_sign_def
        toy_serialize_def sample_keypair_simps)
  show ?thesis
    unfolding launchPumpFunToken_def tried signed_sample by simp
qed




section \<open>The metadata uploader\<close>

text \<open>
  C8. When fetching the image fails, because \<open>fetch\<close> rejects or because reading the
  body rejects, \<open>uploadMetadata\<close> throws an \<open>Error\<close> whose message starts with
  \<open>Failed to fetch image\<close>, and the only request it has made is the GET of the image:
  no request to the upload endpoint was attempted.
\<close>

theorem uploadMetadata_image_failure:
  assumes "network env (requests w) (image_request imageUrl) = Inl e \<or>
           (\<exists>ir. network env (requests w) (image_request imageUrl) = Inr ir \<and> await_blob ir = Inl e)"
  shows "fst (uploadMetadata env tn tt d imageUrl opts w)
           = Inl (new_Error (lit ''Failed to fetch image: '' @ ToString e)) \<and>
         prefix (lit ''Failed to fetch image'') (lit ''Failed to fetch image: '' @ ToString e) \<and>
         requests (snd (uploadMetadata env tn tt d imageUrl opts w))
           = requests w @ [image_request imageUrl] \<and>
         req_method (image_request imageUrl) = lit ''GET'' \<and>
         (\<forall>form a. image_request imageUrl \<noteq> upload_request form a)"
proof -
  have "uploadMetadata env tn tt d imageUrl opts w =
           (Inl (new_Error (lit ''Failed to fetch image: '' @ ToString e)),
            w\<lparr>requests := requests w @ [image_request imageUrl]\<rparr>)"
    using assms uploadMetadata_image_throws uploadMetadata_blob_throws by blast
  moreover have "prefix (lit ''Failed to fetch image'') (lit ''Failed to fetch image: '' @ x)" for x
    by (simp add: lit_def)
  moreover have "image_request imageUrl \<noteq> upload_request form a" for form a
    by (simp add: image_request_def upload_request_def)
  ultimately show ?thesis
    by (simp add: image_request_def)
qed

theorem uploadMetadata_image_failure_witness:
  "fst (uploadMetadata (mock_env (Inl fetch_failed) upload_ok trade_ok)
          (lit ''T'') (lit ''TICK'') (lit ''d'') image_url None start)
     = Inl (new_Error (lit ''Failed to fetch image: TypeError: fetch failed'')) \<and>
   requests (snd (uploadMetadata (mock_env (Inl fetch_failed) upload_ok trade_ok)
          (lit ''T'') (lit ''TICK'') (lit ''d'') image_url None start))
     = [image_request image_url] \<and>
   fst (uploadMetadata (mock_env image_unreadable upload_ok trade_ok)
          (lit ''T'') (lit ''TICK'') (lit ''d'') image_url None start)
     = Inl (new_Error (lit ''Failed to fetch image: TypeError: fetch failed'')) \<and>
   requests (snd (uploadMetadata (mock_env image_unreadable upload_ok trade_ok)
          (lit ''T'') (lit ''TICK'') (lit ''d'') image_url None start))
     = [image_request image_url]"
proof -
  have rejected: "network (mock_env (Inl fetch_failed) upload_ok trade_ok) (requests start)
      (image_request image_url) = Inl fetch_failed"
    by (rule network_mock_image)
  have unreadable: "\<exists>ir. network (mock_env image_unreadable upload_ok trade_ok) (requests start)
      (image_request image_url) = Inr ir \<and> await_blob ir = Inl fetch_failed"
    by (simp add: network_mock_image image_unreadable_def)
  show ?thesis
    using uploadMetadata_image_failure [OF disjI1, OF rejected,
        of "lit ''T''" "lit ''TICK''" "lit ''d''" None]
      uploadMetadata_image_failure [OF disjI2, OF unreadable,
        of "lit ''T''" "lit ''TICK''" "lit ''d''" None]
    by (simp add: failed_to_fetch_text start_def)
qed



text \<open>
  C7. Given the response of the upload endpoint: on a status from 200 to 299
  \<open>uploadMetadata\<close> returns what parsing the body as JSON gives; on any other status it
  throws an \<open>Error\<close> whose message contains the response's status text.
\<close>

theorem uploadMetadata_response:
  assumes "network env (requests w) (image_request imageUrl) = Inr ir"
      and "await_blob ir = Inr b"
      and "proxy_agent env = Inr a"
      and "network env (requests w @ [image_request imageUrl])
             (upload_request (finalFormData (metadata_fields tn tt d opts) (image_file b)) a) = Inr r"
  shows "(200 \<le> status r \<and> status r \<le> 299 \<longrightarrow>
            fst (uploadMetadata env tn tt d imageUrl opts w) = await_json r) \<and>
         (\<not> (200 \<le> status r \<and> status r \<le> 299) \<longrightarrow>
            (\<exists>msg. fst (uploadMetadata env tn tt d imageUrl opts w) = Inl (new_Error msg)
               \<and> sublist (statusText r) msg))"
  using uploadMetadata_posted [OF assms(1-3)] assms(4)
  by (auto simp: Let_def)

theorem uploadMetadata_response_witness:
  "(\<exists>msg. fst (uploadMetadata (mock_env image_ok upload_500 trade_ok)
              (lit ''T'') (lit ''TICK'') (lit ''d'') image_url None start) = Inl (new_Error msg)
      \<and> sublist (lit ''Internal Server Error'') msg) \<and>
   fst (uploadMetadata (mock_env image_ok upload_ok trade_ok)
          (lit ''T'') (lit ''TICK'') (lit ''d'') image_url None start) = Inr sample_metadata"
proof -
  let ?ir = "mock_response 200 (lit ''OK'') [137, 80, 78, 71]"
  have img: "network (mock_env image_ok u t) (requests start) (image_request image_url) = Inr ?ir"
    for u t
    by (simp add: network_mock_image image_ok_def)
  have blob: "await_blob ?ir = Inr [137, 80, 78, 71]"
    by (simp add: mock_response_simps)
  have bad: "network (mock_env image_ok upload_500 trade_ok) h (upload_request form a)
      = Inr (mock_response 500 (lit ''Internal Server Error'') [])" for h form a
    by (simp add: network_mock_upload upload_500_def)
  have good: "network (mock_env image_ok upload_ok trade_ok) h (upload_request form a)
      = Inr (mock_response 200 (lit ''OK'') [])" for h form a
    by (simp add: network_mock_upload upload_ok_def)
  show ?thesis
    using uploadMetadata_response [OF img blob proxy_agent_mock bad]
      uploadMetadata_response [OF img blob proxy_agent_mock good]
    by (simp add: mock_response_simps)
qed

section \<open>The transaction request builder\<close>

text \<open>
  C2, as amended. When \<open>metadata\<close>, \<open>metadata.name\<close>, \<open>metadata.symbol\<close> and
  \<open>metadataUri\<close> can be read from the upload result, the builder constructs exactly
  the payload below and sends its serialisation: \<open>amount\<close>, \<open>slippage\<close> and
  \<open>priorityFee\<close> are the option's value when it is given and truthy (not \<open>0\<close>,
  \<open>-0\<close> or \<open>NaN\<close>), and \<open>0\<close>, \<open>10\<close> and \<open>0.0001\<close> otherwise.
\<close>

theorem build_payload_fields:
  assumes "get_member (Some m) (lit ''metadata'') = Inr md"
      and "get_member md (lit ''name'') = Inr n"
      and "get_member md (lit ''symbol'') = Inr s"
      and "get_member (Some m) (lit ''metadataUri'') = Inr u"
  shows "let falsy = (\<lambda>v. v = 0 \<or> v = 0x8000000000000000 \<or> isNaN v);
             expected =
               \<lparr>p_publicKey = pk,
                p_action = lit ''create'',
                p_tokenMetadata = \<lparr>name = n, symbol = s, uri = u\<rparr>,
                p_mint = publicKey kp,
                p_denominatedInSol = lit ''true'',
                p_amount = (case Option.bind opts initialBuyAmount of
                              Some v \<Rightarrow> if falsy v then number_0 else v | None \<Rightarrow> number_0),
                p_slippage = (case Option.bind opts slippageBps of
                                Some v \<Rightarrow> if falsy v then number_10 else v | None \<Rightarrow> number_10),
                p_priorityFee = (case Option.bind opts priorityFee of
                                   Some v \<Rightarrow> if falsy v then number_0_0001 else v
                                 | None \<Rightarrow> number_0_0001),
                p_pool = lit ''pump''\<rparr>
         in build_payload pk kp m opts = Inr expected \<and>
            requests (snd (createTokenTransaction env pk kp m opts w))
              = requests w @ [trade_request (JSON_stringify env expected)]"
proof -
  define expected where "expected =
               \<lparr>p_publicKey = pk,
                p_action = lit ''create'',
                p_tokenMetadata = \<lparr>name = n, symbol = s, uri = u\<rparr>,
                p_mint = publicKey kp,
                p_denominatedInSol = lit ''true'',
                p_amount = or_default (Option.bind opts initialBuyAmount) number_0,
                p_slippage = or_default (Option.bind opts slippageBps) number_10,
                p_priorityFee = or_default (Option.bind opts priorityFee) number_0_0001,
                p_pool = lit ''pump''\<rparr>"
  have bp: "build_payload pk kp m opts = Inr expected"
    unfolding build_payload_def expected_def by (simp only: assms sum.case)
  have "requests (snd (createTokenTransaction env pk kp m opts w))
              = requests w @ [trade_request (JSON_stringify env expected)]"
    using createTokenTransaction_sent [OF bp, of env w] by (simp add: Let_def)
  with bp show ?thesis
    unfolding Let_def expected_def or_default_cases by simp
qed

theorem build_payload_fields_witness:
  "build_payload (lit ''user'') sample_keypair sample_metadata (Some zero_slippage)
     = Inr sample_payload \<and>
   requests (snd (createTokenTransaction (mock_env image_ok upload_ok trade_ok)
        (lit ''user'') sample_keypair sample_metadata (Some zero_slippage) start))
     = [trade_request (toy_stringify sample_payload)]"
proof -
  have md: "get_member (Some sample_metadata) (lit ''metadata'')
      = Inr (Some (JObj [(lit ''name'', JStr (lit ''T'')), (lit ''symbol'', JStr (lit ''TICK''))]))"
    by (simp add: sample_metadata_def)
  have n: "get_member (Some (JObj [(lit ''name'', JStr (lit ''T'')),
      (lit ''symbol'', JStr (lit ''TICK''))])) (lit ''name'') = Inr (Some (JStr (lit ''T'')))"
    by simp
  have s: "get_member (Some (JObj [(lit ''name'', JStr (lit ''T'')),
      (lit ''symbol'', JStr (lit ''TICK''))])) (lit ''symbol'') = Inr (Some (JStr (lit ''TICK'')))"
    by (simp add: lit_eq_iff)
  have u: "get_member (Some sample_metadata) (lit ''metadataUri'')
      = Inr (Some (JStr (lit ''ipfs://x'')))"
    by (simp add: sample_metadata_def lit_eq_iff)
  show ?thesis
    using build_payload_fields [OF md n s u, of "lit ''user''" sample_keypair "Some zero_slippage"
        "mock_env image_ok upload_ok trade_ok" start]
    by (simp add: Let_def zero_slippage_def sample_payload_def sample_keypair_def mock_env_simps
        start_def)
qed

text \<open>
  C2 as stated fails: with \<open>slippageBps\<close> given as \<open>0\<close> the payload's slippage is
  \<open>10\<close>, not the given value.
\<close>

theorem build_payload_zero_slippage_counterexample:
  "Option.bind (Some zero_slippage) slippageBps = Some 0 \<and>
   map_sum id p_slippage (build_payload (lit ''user'') sample_keypair sample_metadata
     (Some zero_slippage)) = Inr number_10 \<and>
   number_10 \<noteq> (0 :: js_number)"
  by (simp add: build_payload_def sample_metadata_def zero_slippage_def or_default_def
      truthy_number_def number_10_def lit_eq_iff)

text \<open>
  C6. Given the response of the transaction-construction endpoint: on a status from 200
  to 299 \<open>createTokenTransaction\<close> returns that response; on any other status, with the
  body text read, it throws an \<open>Error\<close> whose message contains the status in decimal
  and the body text.
\<close>

theorem createTokenTransaction_response:
  assumes "build_payload pk kp m opts = Inr p"
      and "network env (requests w) (trade_request (JSON_stringify env p)) = Inr r"
  shows "(200 \<le> status r \<and> status r \<le> 299 \<longrightarrow>
            fst (createTokenTransaction env pk kp m opts w) = Inr r) \<and>
         (\<not> (200 \<le> status r \<and> status r \<le> 299) \<longrightarrow>
            (\<forall>t. await_text r = Inr t \<longrightarrow>
               (\<exists>msg. fst (createTokenTransaction env pk kp m opts w) = Inl (new_Error msg)
                  \<and> sublist (Number_toString (status r)) msg \<and> sublist t msg)))"
proof -
  have "sublist t (a @ n @ b @ t)" for a n b t :: js_string
    by (metis append.assoc sublist_append_leftI)
  then show ?thesis
    using createTokenTransaction_sent [OF assms(1), of env w] assms(2)
    by (auto simp: Let_def)
qed

theorem createTokenTransaction_response_witness:
  "Number_toString 400 = lit ''400'' \<and>
   (\<exists>msg. fst (createTokenTransaction (mock_env image_ok upload_ok trade_400)
              (lit ''user'') sample_keypair sample_metadata None start) = Inl (new_Error msg)
      \<and> sublist (lit ''400'') msg \<and> sublist (lit ''Bad'') msg) \<and>
   fst (createTokenTransaction (mock_env image_ok upload_ok trade_ok)
          (lit ''user'') sample_keypair sample_metadata None start)
     = Inr (mock_response 200 (lit ''OK'') [1, 2, 3])"
proof -
  have bad: "network (mock_env image_ok upload_ok trade_400) h (trade_request j)
      = Inr (mock_response 400 (lit ''Bad Request'') [66, 97, 100])" for h j
    by (simp add: network_mock_trade trade_400_def)
  have good: "network (mock_env image_ok upload_ok trade_ok) h (trade_request j)
      = Inr (mock_response 200 (lit ''OK'') [1, 2, 3])" for h j
    by (simp add: network_mock_trade trade_ok_def)
  have bad_text: "lit ''Bad'' = [66, 97, 100]"
    by (simp add: lit_def)
  show ?thesis
    using createTokenTransaction_response [OF sample_payload_built bad, of start]
      createTokenTransaction_response [OF sample_payload_built good, of start]
    by (simp add: mock_response_simps Number_toString_400 bad_text)
qed

section \<open>The orchestrator\<close>



text \<open>
  C5. Whichever step throws (the metadata upload, the transaction request, reading the
  body, deserialising, signing, serialising), \<open>launchPumpFunToken\<close> throws that same
  value; it returns a string only when every step has returned, and then the string is
  the base64 encoding of the serialised signed transaction. The \<open>catch\<close> block changes
  nothing but the console, where it writes the error.
\<close>

theorem launch_rethrows_unmodified:
  "(\<forall>e w1. uploadMetadata env tn tt d img opts w = (Inl e, w1) \<longrightarrow>
      fst (launchPumpFunToken env pk tn tt d img opts w) = Inl e) \<and>
   (\<forall>m w1 e w2.
      uploadMetadata env tn tt d img opts w = (Inr m, w1) \<and>
      createTokenTransaction env pk (Keypair_generate env) m opts w1 = (Inl e, w2) \<longrightarrow>
      fst (launchPumpFunToken env pk tn tt d img opts w) = Inl e) \<and>
   (\<forall>m w1 r w2 e.
      uploadMetadata env tn tt d img opts w = (Inr m, w1) \<and>
      createTokenTransaction env pk (Keypair_generate env) m opts w1 = (Inr r, w2) \<and>
      await_arrayBuffer r = Inl e \<longrightarrow>
      fst (launchPumpFunToken env pk tn tt d img opts w) = Inl e) \<and>
   (\<forall>m w1 r w2 data e.
      uploadMetadata env tn tt d img opts w = (Inr m, w1) \<and>
      createTokenTransaction env pk (Keypair_generate env) m opts w1 = (Inr r, w2) \<and>
      await_arrayBuffer r = Inr data \<and> deserialize env data = Inl e \<longrightarrow>
      fst (launchPumpFunToken env pk tn tt d img opts w) = Inl e) \<and>
   (\<forall>m w1 r w2 data tx e.
      uploadMetadata env tn tt d img opts w = (Inr m, w1) \<and>
      createTokenTransaction env pk (Keypair_generate env) m opts w1 = (Inr r, w2) \<and>
      await_arrayBuffer r = Inr data \<and> deserialize env data = Inr tx \<and>
      sign env tx [Keypair_generate env] = Inl e \<longrightarrow>
      fst (launchPumpFunToken env pk tn tt d img opts w) = Inl e) \<and>
   (\<forall>m w1 r w2 data tx signedTx e.
      uploadMetadata env tn tt d img opts w = (Inr m, w1) \<and>
      createTokenTransaction env pk (Keypair_generate env) m opts w1 = (Inr r, w2) \<and>
      await_arrayBuffer r = Inr data \<and> deserialize env data = Inr tx \<and>
      sign env tx [Keypair_generate env] = Inr signedTx \<and> serialize env signedTx = Inl e \<longrightarrow>
      fst (launchPumpFunToken env pk tn tt d img opts w) = Inl e) \<and>
   (\<forall>s. fst (launchPumpFunToken env pk tn tt d img opts w) = Inr s \<longrightarrow>
      (\<exists>m w1 r w2 data tx signedTx bytes.
         uploadMetadata env tn tt d img opts w = (Inr m, w1) \<and>
         createTokenTransaction env pk (Keypair_generate env) m opts w1 = (Inr r, w2) \<and>
         await_arrayBuffer r = Inr data \<and> deserialize env data = Inr tx \<and>
         sign env tx [Keypair_generate env] = Inr signedTx \<and>
         serialize env signedTx = Inr bytes \<and> s = base64_encode bytes)) \<and>
   (\<forall>e. fst (launchPumpFunToken env pk tn tt d img opts w) = Inl e \<longrightarrow>
      (\<exists>extra. console (snd (launchPumpFunToken env pk tn tt d img opts w))
         = console (snd (launch_try env pk tn tt d img opts w))
           @ [LogString (lit ''Error in launchpumpfuntoken:''), LogThrown e] # extra)) \<and>
   snd (launchPumpFunToken env pk tn tt d img opts w)
     = (snd (launch_try env pk tn tt d img opts w))
         \<lparr>console := console (snd (launchPumpFunToken env pk tn tt d img opts w))\<rparr>"
proof -
  let ?launch = "fst (launchPumpFunToken env pk tn tt d img opts w)"
  let ?upload = "uploadMetadata env tn tt d img opts w"
  have c1: "\<forall>e w1. ?upload = (Inl e, w1) \<longrightarrow> ?launch = Inl e"
    by (simp add: launch_fst launch_try_def Let_def)
  have c2: "\<forall>m w1 e w2.
      ?upload = (Inr m, w1) \<and>
      createTokenTransaction env pk (Keypair_generate env) m opts w1 = (Inl e, w2) \<longrightarrow>
      ?launch = Inl e"
    by (simp add: launch_fst launch_try_def Let_def)
  have c3: "\<forall>m w1 r w2 e.
      ?upload = (Inr m, w1) \<and>
      createTokenTransaction env pk (Keypair_generate env) m opts w1 = (Inr r, w2) \<and>
      await_arrayBuffer r = Inl e \<longrightarrow>
      ?launch = Inl e"
    by (simp add: launch_fst launch_try_def Let_def)
  have c4: "\<forall>m w1 r w2 data e.
      ?upload = (Inr m, w1) \<and>
      createTokenTransaction env pk (Keypair_generate env) m opts w1 = (Inr r, w2) \<and>
      await_arrayBuffer r = Inr data \<and> deserialize env data = Inl e \<longrightarrow>
      ?launch = Inl e"
    by (simp add: launch_fst launch_try_def Let_def)
  have c5: "\<forall>m w1 r w2 data tx e.
      ?upload = (Inr m, w1) \<and>
      createTokenTransaction env pk (Keypair_generate env) m opts w1 = (Inr r, w2) \<and>
      await_arrayBuffer r = Inr data \<and> deserialize env data = Inr tx \<and>
      sign env tx [Keypair_generate env] = Inl e \<longrightarrow>
      ?launch = Inl e"
    by (simp add: launch_fst launch_try_def Let_def)
  have c6: "\<forall>m w1 r w2 data tx signedTx e.
      ?upload = (Inr m, w1) \<and>
      createTokenTransaction env pk (Keypair_generate env) m opts w1 = (Inr r, w2) \<and>
      await_arrayBuffer r = Inr data \<and> deserialize env data = Inr tx \<and>
      sign env tx [Keypair_generate env] = Inr signedTx \<and> serialize env signedTx = Inl e \<longrightarrow>
      ?launch = Inl e"
    by (simp add: launch_fst launch_try_def Let_def)
  have c7: "\<forall>s. ?launch = Inr s \<longrightarrow>
      (\<exists>m w1 r w2 data tx signedTx bytes.
         ?upload = (Inr m, w1) \<and>
         createTokenTransaction env pk (Keypair_generate env) m opts w1 = (Inr r, w2) \<and>
         await_arrayBuffer r = Inr data \<and> deserialize env data = Inr tx \<and>
         sign env tx [Keypair_generate env] = Inr signedTx \<and>
         serialize env signedTx = Inr bytes \<and> s = base64_encode bytes)"
  proof (intro allI impI)
    fix s
    assume "?launch = Inr s"
    then have "launch_try env pk tn tt d img opts w
        = (Inr s, snd (launch_try env pk tn tt d img opts w))"
      by (simp add: launch_fst prod_eq_iff)
    from launch_try_Inr [OF this]
    show "\<exists>m w1 r w2 data tx signedTx bytes.
         ?upload = (Inr m, w1) \<and>
         createTokenTransaction env pk (Keypair_generate env) m opts w1 = (Inr r, w2) \<and>
         await_arrayBuffer r = Inr data \<and> deserialize env data = Inr tx \<and>
         sign env tx [Keypair_generate env] = Inr signedTx \<and>
         serialize env signedTx = Inr bytes \<and> s = base64_encode bytes"
      by blast
  qed
  have c8: "\<forall>e. ?launch = Inl e \<longrightarrow>
      (\<exists>extra. console (snd (launchPumpFunToken env pk tn tt d img opts w))
         = console (snd (launch_try env pk tn tt d img opts w))
           @ [LogString (lit ''Error in launchpumpfuntoken:''), LogThrown e] # extra)"
    using launch_logged [of env pk tn tt d img opts w] by (simp add: launch_fst)
  show ?thesis
    by (intro conjI) (rule c1 c2 c3 c4 c5 c6 c7 c8 launch_world)+
qed

theorem launch_rethrows_unmodified_witness:
  "fst (launchPumpFunToken (mock_env (Inl fetch_failed) upload_ok trade_ok) (lit ''user'')
         (lit ''T'') (lit ''TICK'') (lit ''d'') image_url None start)
     = Inl (new_Error (lit ''Failed to fetch image: TypeError: fetch failed'')) \<and>
   fst (launchPumpFunToken (mock_env image_ok upload_ok trade_400) (lit ''user'')
         (lit ''T'') (lit ''TICK'') (lit ''d'') image_url None start)
     = Inl (new_Error (lit ''Transaction creation failed: 400 - Bad'')) \<and>
   fst (launchPumpFunToken (mock_env image_ok upload_ok trade_unreadable) (lit ''user'')
         (lit ''T'') (lit ''TICK'') (lit ''d'') image_url None start)
     = Inl fetch_failed \<and>
   fst (launchPumpFunToken (mock_env image_ok upload_ok trade_empty) (lit ''user'')
         (lit ''T'') (lit ''TICK'') (lit ''d'') image_url None start)
     = Inl (new_Error (lit ''Reached end of buffer'')) \<and>
   fst (launchPumpFunToken (mock_env image_ok upload_ok trade_unsignable) (lit ''user'')
         (lit ''T'') (lit ''TICK'') (lit ''d'') image_url None start)
     = Inl (new_Error (lit ''Cannot sign with non signer key'')) \<and>
   fst (launchPumpFunToken (mock_env image_ok upload_ok trade_too_large) (lit ''user'')
         (lit ''T'') (lit ''TICK'') (lit ''d'') image_url None start)
     = Inl (new_Error (lit ''Transaction too large'')) \<and>
   (\<exists>m w1 r w2 data tx signedTx bytes.
      uploadMetadata (mock_env image_ok upload_ok trade_ok) (lit ''T'') (lit ''TICK'') (lit ''d'')
        image_url None start = (Inr m, w1) \<and>
      createTokenTransaction (mock_env image_ok upload_ok trade_ok) (lit ''user'') sample_keypair
        m None w1 = (Inr r, w2) \<and>
      await_arrayBuffer r = Inr data \<and> toy_deserialize data = Inr tx \<and>
      toy_sign tx [sample_keypair] = Inr signedTx \<and> toy_serialize signedTx = Inr bytes \<and>
      lit ''CQkBAgMBAgM='' = base64_encode bytes)"
proof -
  let ?tn = "lit ''T''" and ?tt = "lit ''TICK''" and ?d = "lit ''d''" and ?pk = "lit ''user''"
  note at_sample = launch_rethrows_unmodified [where tn = ?tn and tt = ?tt and d = ?d and pk = ?pk
      and img = image_url and opts = None and w = start]
  have down: "uploadMetadata (mock_env (Inl fetch_failed) upload_ok trade_ok) ?tn ?tt ?d
      image_url None start
    = (Inl (new_Error (lit ''Failed to fetch image: '' @ ToString fetch_failed)),
       start\<lparr>requests := requests start @ [image_request image_url]\<rparr>)"
    by (rule uploadMetadata_image_throws) (rule network_mock_image)
  have a: "fst (launchPumpFunToken (mock_env (Inl fetch_failed) upload_ok trade_ok) ?pk
         ?tn ?tt ?d image_url None start)
     = Inl (new_Error (lit ''Failed to fetch image: TypeError: fetch failed''))"
    using at_sample [where env = "mock_env (Inl fetch_failed) upload_ok trade_ok"]
    unfolding down by (simp add: failed_to_fetch_text)
  have b: "fst (launchPumpFunToken (mock_env image_ok upload_ok trade_400) ?pk
         ?tn ?tt ?d image_url None start)
     = Inl (new_Error (lit ''Transaction creation failed: 400 - Bad''))"
    using at_sample [where env = "mock_env image_ok upload_ok trade_400"]
    by (simp add: mock_uploaded_image_ok mock_traded_400 mock_env_simps)
  have c: "fst (launchPumpFunToken (mock_env image_ok upload_ok trade_unreadable) ?pk
         ?tn ?tt ?d image_url None start) = Inl fetch_failed"
    using at_sample [where env = "mock_env image_ok upload_ok trade_unreadable"]
    by (simp add: mock_uploaded_image_ok trade_unreadable_def mock_traded_200 mock_response_simps
        mock_env_simps)
  have d: "fst (launchPumpFunToken (mock_env image_ok upload_ok trade_empty) ?pk
         ?tn ?tt ?d image_url None start) = Inl (new_Error (lit ''Reached end of buffer''))"
    using at_sample [where env = "mock_env image_ok upload_ok trade_empty"]
    by (simp add: mock_uploaded_image_ok trade_empty_def mock_traded_200 mock_response_simps
        mock_env_simps toy_deserialize_def)
  have e: "fst (launchPumpFunToken (mock_env image_ok upload_ok trade_unsignable) ?pk
         ?tn ?tt ?d image_url None start)
     = Inl (new_Error (lit ''Cannot sign with non signer key''))"
    using at_sample [where env = "mock_env image_ok upload_ok trade_unsignable"]
    by (simp add: mock_uploaded_image_ok trade_unsignable_def mock_traded_200 mock_response_simps
        mock_env_simps toy_deserialize_def toy_sign_def)
  have f: "fst (launchPumpFunToken (mock_env image_ok upload_ok trade_too_large) ?pk
         ?tn ?tt ?d image_url None start) = Inl (new_Error (lit ''Transaction too large''))"
    using at_sample [where env = "mock_env image_ok upload_ok trade_too_large"]
    by (simp add: mock_uploaded_image_ok trade_too_large_def mock_traded_200 mock_response_simps
        mock_env_simps toy_deserialize_def toy_sign_def toy_serialize_def)
  have g: "\<exists>m w1 r w2 data tx signedTx bytes.
      uploadMetadata (mock_env image_ok upload_ok trade_ok) ?tn ?tt ?d
        image_url None start = (Inr m, w1) \<and>
      createTokenTransaction (mock_env image_ok upload_ok trade_ok) ?pk sample_keypair
        m None w1 = (Inr r, w2) \<and>
      await_arrayBuffer r = Inr data \<and> toy_deserialize data = Inr tx \<and>
      toy_sign tx [sample_keypair] = Inr signedTx \<and> toy_serialize signedTx = Inr bytes \<and>
      lit ''CQkBAgMBAgM='' = base64_encode bytes"
    using at_sample [where env = "mock_env image_ok upload_ok trade_ok"] launch_mock_ok
    by (simp add: mock_env_simps)
  from a b c d e f g show ?thesis by blast
qed

end
